theory Spec2Isabelle
  imports Complex_Main
begin

section \<open>JavaScript primitives used by the SMS pipeline\<close>

text \<open>
  Strings are character lists. The string methods the pipeline calls are written out:
  \<open>toLowerCase\<close> (on the ASCII letters), \<open>includes\<close>, \<open>startsWith\<close>, \<open>trim\<close>,
  \<open>lastIndexOf\<close>, \<open>slice\<close> and \<open>replace(/,/g, '')\<close>.
\<close>

datatype error = Error string

definition lower_char :: "char \<Rightarrow> char" where
  "lower_char c =
     (let n = (of_char c :: nat) in if 65 \<le> n \<and> n \<le> 90 then char_of (n + 32) else c)"

definition toLowerCase :: "string \<Rightarrow> string" where
  "toLowerCase s = map lower_char s"

fun startsWith :: "string \<Rightarrow> string \<Rightarrow> bool" where
  "startsWith t [] = True"
| "startsWith [] (c # p) = False"
| "startsWith (d # t) (c # p) = (d = c \<and> startsWith t p)"

fun str_includes :: "string \<Rightarrow> string \<Rightarrow> bool" where
  "str_includes [] p = startsWith [] p"
| "str_includes (d # t) p = (startsWith (d # t) p \<or> str_includes t p)"

definition is_ws :: "char \<Rightarrow> bool" where
  "is_ws c = ((of_char c :: nat) \<in> {9, 10, 11, 12, 13, 32})"

definition trim :: "string \<Rightarrow> string" where
  "trim s = rev (dropWhile is_ws (rev (dropWhile is_ws s)))"

text \<open>\<open>lastIndexOf\<close>: the position of the last occurrence, \<open>None\<close> for JavaScript's \<open>-1\<close>.\<close>

fun lastIndexOf :: "string \<Rightarrow> char \<Rightarrow> nat option" where
  "lastIndexOf [] c = None"
| "lastIndexOf (d # t) c =
     (case lastIndexOf t c of
        Some i \<Rightarrow> Some (Suc i)
      | None \<Rightarrow> (if d = c then Some 0 else None))"

definition slice :: "string \<Rightarrow> nat \<Rightarrow> nat \<Rightarrow> string" where
  "slice s i j = take (j - i) (drop i s)"

definition remove_commas :: "string \<Rightarrow> string" where
  "remove_commas s = filter (\<lambda>c. c \<noteq> CHR '','') s"

text \<open>
  A JavaScript number: \<open>NaN\<close>, the two infinities, or a finite value. \<open>Math.abs\<close>,
  \<open>isNaN\<close> and the truthiness test \<open>!amount\<close> follow the language.
\<close>

datatype jsnum = NaN | NegInf | PosInf | Fin real

fun js_abs :: "jsnum \<Rightarrow> jsnum" where
  "js_abs NaN = NaN"
| "js_abs NegInf = PosInf"
| "js_abs PosInf = PosInf"
| "js_abs (Fin x) = Fin \<bar>x\<bar>"

fun isNaN :: "jsnum \<Rightarrow> bool" where
  "isNaN NaN = True"
| "isNaN _ = False"

fun truthy_num :: "jsnum \<Rightarrow> bool" where
  "truthy_num NaN = False"
| "truthy_num (Fin x) = (x \<noteq> 0)"
| "truthy_num _ = True"

text \<open>The value \<open>number | null\<close> of \<open>ParseResult.amount\<close>: \<open>None\<close> is \<open>null\<close>.\<close>

fun truthy_amount :: "jsnum option \<Rightarrow> bool" where
  "truthy_amount None = False"
| "truthy_amount (Some a) = truthy_num a"

text \<open>
  The outcome of \<open>new RegExp(pattern, flags)\<close> followed by \<open>test\<close> or \<open>match\<close> on a
  subject: the constructor throws a \<open>SyntaxError\<close>, the regex does not match, or it
  matches and capture group 1 is a string or \<open>undefined\<close>.
\<close>

datatype regex_result = SyntaxError | NoMatch | Match "string option"

section \<open>Data model\<close>

datatype transaction_type = Expense | Income

text \<open>A field of type \<open>string | string[]\<close>; \<open>to_array\<close> is the normalisation
  \<open>Array.isArray(x) ? x : [x]\<close>, and \<open>truthy_field\<close> the test \<open>if (x)\<close>.\<close>

datatype str_or_arr = Str string | Arr "string list"

fun to_array :: "str_or_arr \<Rightarrow> string list" where
  "to_array (Str s) = [s]"
| "to_array (Arr xs) = xs"

fun truthy_field :: "str_or_arr option \<Rightarrow> bool" where
  "truthy_field None = False"
| "truthy_field (Some (Str s)) = (s \<noteq> [])"
| "truthy_field (Some (Arr xs)) = True"

record merchant_extraction =
  startText :: "string option"
  endText :: "string option"
  startIndex :: "int option"

record SmsParserRule =
  rule_id :: "string option"
  name :: string
  enabled :: bool
  paymentBank :: string
  priority :: int
  transactionType :: transaction_type
  senderMatch :: str_or_arr
  amountRegex :: str_or_arr
  merchantExtractions :: "merchant_extraction list option"
  merchantCommonPatterns :: "str_or_arr option"
  skipCondition :: "str_or_arr option"
  merchantCondition :: "str_or_arr option"
  successCount :: "nat option"
  lastError :: "string option"

record ParseResult =
  amount :: "jsnum option"
  merchantName :: string
  usedRule :: "SmsParserRule option"
  resultType :: "transaction_type option"

text \<open>
  What the pipeline calls and this repository does not define: the regular-expression
  engine, \<open>parseFloat\<close>, the merchant extractor of \<open>merchant-extract\<close>, the enrichment
  lookup, the date formatter, the random UUID source, the event bus, the clock, the
  device bridge, the rule store and the transaction store. They are the fields of an
  environment, so every theorem holds for every behaviour of them.
\<close>

record enriched =
  enr_category :: "string option"
  enr_notes :: "string option"

record Transaction =
  tx_id :: string
  tx_amount :: jsnum
  tx_date :: string
  tx_merchantName :: string
  tx_category :: string
  tx_notes :: "string option"
  tx_paymentMethod :: string
  tx_source :: string
  tx_type :: transaction_type

record raw_sms =
  raw_address :: "string option"
  raw_body :: "string option"
  raw_date :: string

datatype sms_payload =
    Rejected error
  | Unparsable
  | NotArray
  | Messages "raw_sms option list"

record progress =
  pr_total :: nat
  pr_processed :: nat
  pr_success :: nat
  pr_skipped :: nat

record env =
  regex_exec :: "string \<Rightarrow> string \<Rightarrow> string \<Rightarrow> regex_result"
  parseFloat :: "string \<Rightarrow> jsnum"
  tryMerchantExtractions :: "string \<Rightarrow> merchant_extraction list \<Rightarrow> error + string"
  getPreviousTransactionData :: "string \<Rightarrow> error + enriched"
  toISOString :: "string \<Rightarrow> string option"
  uuid_at :: "nat \<Rightarrow> string"
  number_toString :: "jsnum \<Rightarrow> string"
  sha256_hex :: "string \<Rightarrow> string"
  emit :: "progress \<Rightarrow> error option"
  now_first :: int
  now_second :: int
  minus_days :: "int \<Rightarrow> int \<Rightarrow> int"
  readSMS :: "(int \<Rightarrow> int \<Rightarrow> sms_payload) option"
  getSmsParserRules :: "error + SmsParserRule list"
  getTransactions :: "error + Transaction list"

section \<open>The extraction engine\<close>

definition no_match :: ParseResult where
  "no_match = \<lparr>amount = None, merchantName = ''Unknown Merchant'', usedRule = None,
     resultType = None\<rparr>"

text \<open>A pattern that is empty or blank is passed over: \<open>!pattern || pattern.trim() === ''\<close>.\<close>

definition blank :: "string \<Rightarrow> bool" where
  "blank p = (p = [] \<or> trim p = [])"

text \<open>
  One skip pattern against the message text, as both skip loops of \<open>tryRules\<close> write it:
  the case-insensitive literal first, then, for a pattern of the form \<open>/re/flags\<close>, the
  regex (flags default to \<open>i\<close>); an invalid regex is logged and does not hit.
\<close>

definition regex_skip_hits :: "env \<Rightarrow> string \<Rightarrow> string \<Rightarrow> bool" where
  "regex_skip_hits E text p =
     (startsWith p ''/'' \<and>
      (case lastIndexOf p (CHR ''/'') of
         None \<Rightarrow> False
       | Some i \<Rightarrow>
           1 < i \<and>
           (let regexStr = slice p 1 i;
                flags = drop (i + 1) p
            in case regex_exec E regexStr (if flags = [] then ''i'' else flags) text of
                 Match g \<Rightarrow> True
               | NoMatch \<Rightarrow> False
               | SyntaxError \<Rightarrow> False)))"

definition skip_pattern_hits :: "env \<Rightarrow> string \<Rightarrow> string \<Rightarrow> bool" where
  "skip_pattern_hits E text p =
     (if blank p then False
      else if str_includes (toLowerCase text) (toLowerCase p) then True
      else regex_skip_hits E text p)"

text \<open>The skip loop over one rule's \<open>skipCondition\<close> (absent or \<open>''\<close>: no loop).\<close>

definition rule_skip_hits :: "env \<Rightarrow> string \<Rightarrow> SmsParserRule \<Rightarrow> bool" where
  "rule_skip_hits E text r =
     (case skipCondition r of
        None \<Rightarrow> False
      | Some sc \<Rightarrow> truthy_field (Some sc) \<and> list_ex (skip_pattern_hits E text) (to_array sc))"

text \<open>The first loop of \<open>tryRules\<close>: every rule of the group, enabled or not.\<close>

definition global_skip :: "env \<Rightarrow> string \<Rightarrow> SmsParserRule list \<Rightarrow> bool" where
  "global_skip E text rules = list_ex (rule_skip_hits E text) rules"

definition sender_pattern_matches :: "env \<Rightarrow> string \<Rightarrow> string \<Rightarrow> bool" where
  "sender_pattern_matches E sender p =
     (if blank p then False
      else if str_includes (toLowerCase sender) (toLowerCase p) then True
      else (case regex_exec E p ''i'' sender of
              Match g \<Rightarrow> True
            | NoMatch \<Rightarrow> False
            | SyntaxError \<Rightarrow> False))"

definition senderMatches :: "env \<Rightarrow> string \<Rightarrow> SmsParserRule \<Rightarrow> bool" where
  "senderMatches E sender r = list_ex (sender_pattern_matches E sender) (to_array (senderMatch r))"

text \<open>
  The amount loop. The accumulator is the variable \<open>amount\<close>: a capture that parses to
  \<open>NaN\<close> is stored and the loop goes on; the first capture that is not \<open>NaN\<close> ends it.
\<close>

fun extract_amount :: "env \<Rightarrow> string \<Rightarrow> string list \<Rightarrow> jsnum option \<Rightarrow> jsnum option" where
  "extract_amount E text [] acc = acc"
| "extract_amount E text (p # ps) acc =
     (case regex_exec E p ''i'' text of
        Match (Some g) \<Rightarrow>
          (if g = [] then extract_amount E text ps acc
           else (let a = js_abs (parseFloat E (remove_commas g))
                 in if \<not> isNaN a then Some a else extract_amount E text ps (Some a)))
      | Match None \<Rightarrow> extract_amount E text ps acc
      | NoMatch \<Rightarrow> extract_amount E text ps acc
      | SyntaxError \<Rightarrow> extract_amount E text ps acc)"

text \<open>The loops over \<open>merchantCondition\<close> and \<open>merchantCommonPatterns\<close>: the first
  pattern whose group 1 is non-empty replaces the name by the trimmed capture.\<close>

fun first_capture :: "env \<Rightarrow> string \<Rightarrow> string list \<Rightarrow> string \<Rightarrow> string" where
  "first_capture E subject [] current = current"
| "first_capture E subject (p # ps) current =
     (case regex_exec E p ''i'' subject of
        Match (Some g) \<Rightarrow> (if g = [] then first_capture E subject ps current else trim g)
      | Match None \<Rightarrow> first_capture E subject ps current
      | NoMatch \<Rightarrow> first_capture E subject ps current
      | SyntaxError \<Rightarrow> first_capture E subject ps current)"

text \<open>\<open>for (const pattern of rule.merchantCommonPatterns)\<close> iterates an array by its
  elements and a string by its characters.\<close>

fun iterate_field :: "str_or_arr \<Rightarrow> string list" where
  "iterate_field (Str s) = map (\<lambda>c. [c]) s"
| "iterate_field (Arr xs) = xs"

definition extract_merchant :: "env \<Rightarrow> string \<Rightarrow> SmsParserRule \<Rightarrow> error + string" where
  "extract_merchant E text r =
     (case (case merchantExtractions r of
              None \<Rightarrow> Inr ''Unknown Merchant''
            | Some xs \<Rightarrow>
                (if xs = [] then Inr ''Unknown Merchant''
                 else (case tryMerchantExtractions E text xs of
                         Inl e \<Rightarrow> Inl e
                       | Inr m \<Rightarrow> Inr (if m = [] then ''Unknown Merchant'' else m)))) of
        Inl e \<Rightarrow> Inl e
      | Inr m0 \<Rightarrow>
          (let m1 = (if m0 = [] \<or> m0 = ''Unknown Merchant''
                     then (case merchantCondition r of
                             None \<Rightarrow> m0
                           | Some mc \<Rightarrow>
                               (if truthy_field (Some mc)
                                then first_capture E text (to_array mc) m0 else m0))
                     else m0);
               m2 = (if m1 \<noteq> []
                     then (case merchantCommonPatterns r of
                             None \<Rightarrow> m1
                           | Some cp \<Rightarrow>
                               (if truthy_field (Some cp)
                                then first_capture E m1 (iterate_field cp) m1 else m1))
                     else m1)
           in Inr m2))"

text \<open>
  One iteration of the second loop of \<open>tryRules\<close>. The result is \<open>Some\<close> when the rule
  returns from the function and \<open>None\<close> when the loop goes on to the next rule; the
  list holds the rules handed to \<open>updateSmsParserRule\<close> (whose failure is caught).
\<close>

definition try_rule ::
  "env \<Rightarrow> string \<Rightarrow> string \<Rightarrow> SmsParserRule \<Rightarrow> ParseResult option \<times> SmsParserRule list" where
  "try_rule E text sender r =
     (if \<not> enabled r then (None, [])
      else if \<not> senderMatches E sender r then (None, [])
      else if rule_skip_hits E text r then (None, [])
      else (let a = extract_amount E text (to_array (amountRegex r)) None
            in if \<not> truthy_amount a then (None, [])
               else (case extract_merchant E text r of
                       Inl (Error msg) \<Rightarrow> (None, [r\<lparr>lastError := Some msg\<rparr>])
                     | Inr m \<Rightarrow>
                         (Some \<lparr>amount = a, merchantName = m, usedRule = Some r,
                                 resultType = None\<rparr>,
                          [r\<lparr>successCount := Some ((case successCount r of None \<Rightarrow> 0 | Some n \<Rightarrow> n) + 1),
                              lastError := None\<rparr>]))))"

fun try_each ::
  "env \<Rightarrow> string \<Rightarrow> string \<Rightarrow> SmsParserRule list \<Rightarrow> ParseResult \<times> SmsParserRule list" where
  "try_each E text sender [] = (no_match, [])"
| "try_each E text sender (r # rs) =
     (case try_rule E text sender r of
        (Some res, ws) \<Rightarrow> (res, ws)
      | (None, ws) \<Rightarrow> (case try_each E text sender rs of (res, ws') \<Rightarrow> (res, ws @ ws')))"

definition tryRules ::
  "env \<Rightarrow> string \<Rightarrow> string \<Rightarrow> SmsParserRule list \<Rightarrow> ParseResult \<times> SmsParserRule list" where
  "tryRules E text sender rules =
     (if global_skip E text rules then (no_match, []) else try_each E text sender rules)"

definition extractExpenseFromText ::
  "env \<Rightarrow> string \<Rightarrow> string \<Rightarrow> SmsParserRule list \<Rightarrow> ParseResult \<times> SmsParserRule list" where
  "extractExpenseFromText E text sender rules =
     (let expenseRules = filter (\<lambda>rule. transactionType rule = Expense) rules;
          incomeRules = filter (\<lambda>rule. transactionType rule = Income) rules
      in case tryRules E text sender expenseRules of
           (expenseResult, ws) \<Rightarrow>
             (if truthy_amount (amount expenseResult)
              then (expenseResult\<lparr>resultType := Some Expense\<rparr>, ws)
              else (case tryRules E text sender incomeRules of
                      (incomeResult, ws') \<Rightarrow>
                        (if truthy_amount (amount incomeResult)
                         then (incomeResult\<lparr>resultType := Some Income\<rparr>, ws @ ws')
                         else (no_match, ws @ ws')))))"


section \<open>Identity and duplicate detection\<close>

record ProcessedSmsMessage =
  sms_body :: string
  sms_date :: string
  sms_amount :: jsnum
  sms_merchantName :: string
  sms_sender :: "string option"

text \<open>\<open>uuidv4()\<close> draws from a random source: the state is the number of draws so far,
  and the environment says what each draw returns.\<close>

definition uuidv4 :: "env \<Rightarrow> nat \<Rightarrow> string \<times> nat" where
  "uuidv4 E k = (uuid_at E k, Suc k)"

definition or_empty :: "string option \<Rightarrow> string" where
  "or_empty x = (case x of None \<Rightarrow> [] | Some s \<Rightarrow> s)"

text \<open>
  \<open>generateDeterministicTransactionId\<close> of \<open>processor/transaction-creator\<close>, the one
  the scanner imports through \<open>./processor\<close>: it builds \<open>idString\<close> from the fields and
  then returns \<open>uuidv4()\<close>.
\<close>

definition generateDeterministicTransactionId ::
  "env \<Rightarrow> ProcessedSmsMessage \<Rightarrow> nat \<Rightarrow> string \<times> nat" where
  "generateDeterministicTransactionId E flds k =
     (let idString = sms_date flds @ ''_'' @ number_toString E (sms_amount flds) @ ''_'' @
            sms_merchantName flds @ ''_'' @ or_empty (sms_sender flds) @ ''_'' @
            sms_body flds
      in uuidv4 E k)"

text \<open>
  The function of the same name in \<open>sms-transaction-processor\<close>: the SHA-256 digest, in
  hexadecimal, of the five fields joined by \<open>|\<close>.
\<close>

definition generateDeterministicTransactionId_sha ::
  "env \<Rightarrow> ProcessedSmsMessage \<Rightarrow> string" where
  "generateDeterministicTransactionId_sha E flds =
     sha256_hex E
       (sms_date flds @ ''|'' @ number_toString E (sms_amount flds) @ ''|'' @
        sms_merchantName flds @ ''|'' @ or_empty (sms_sender flds) @ ''|'' @
        sms_body flds)"

text \<open>\<open>createTransactionFromSms\<close>: a failure of the enrichment lookup is logged and
  rethrown; the identifier has been drawn by then.\<close>

definition createTransactionFromSms ::
  "env \<Rightarrow> ProcessedSmsMessage \<Rightarrow> string \<Rightarrow> transaction_type \<Rightarrow> nat \<Rightarrow>
     (error + Transaction) \<times> nat" where
  "createTransactionFromSms E smsData bankName type k =
     (case generateDeterministicTransactionId E smsData k of
        (ident, k') \<Rightarrow>
          (case getPreviousTransactionData E (sms_merchantName smsData) of
             Inl e \<Rightarrow> (Inl e, k')
           | Inr enrichedData \<Rightarrow>
               (Inr \<lparr>tx_id = ident,
                     tx_amount = sms_amount smsData,
                     tx_date = sms_date smsData,
                     tx_merchantName = sms_merchantName smsData,
                     tx_category = (case enr_category enrichedData of
                                      None \<Rightarrow> ''other''
                                    | Some c \<Rightarrow> (if c = [] then ''other'' else c)),
                     tx_notes = enr_notes enrichedData,
                     tx_paymentMethod = bankName,
                     tx_source = ''sms'',
                     tx_type = type\<rparr>, k')))"

text \<open>\<open>isTransactionDuplicate\<close> of \<open>processor/duplicate-checker\<close>: a failure to read
  the store is caught and answers \<open>false\<close>.\<close>

definition isTransactionDuplicate ::
  "env \<Rightarrow> ProcessedSmsMessage \<Rightarrow> string option \<Rightarrow> nat \<Rightarrow> bool \<times> nat" where
  "isTransactionDuplicate E smsData ident k =
     (case getTransactions E of
        Inl e \<Rightarrow> (False, k)
      | Inr transactions \<Rightarrow>
          (if or_empty ident \<noteq> []
           then (list_ex (\<lambda>t. tx_id t = or_empty ident) transactions, k)
           else (case generateDeterministicTransactionId E smsData k of
                   (deterministicId, k') \<Rightarrow>
                     (list_ex (\<lambda>t. tx_id t = deterministicId) transactions, k'))))"

section \<open>The scan orchestrator\<close>

record SmsMessage =
  address :: string
  body :: string
  date :: string

datatype event =
    ReadSMS int int
  | LoadRules
  | UpdateRule SmsParserRule
  | Emitted progress
  | Toast string
  | ToastError string
  | AddTransaction Transaction

text \<open>\<open>messages.slice(0, limit)\<close>: a negative limit counts from the end.\<close>

definition slice0 :: "'a list \<Rightarrow> int \<Rightarrow> 'a list" where
  "slice0 xs limit =
     (if limit < 0 then take (nat (int (length xs) + limit)) xs else take (nat limit) xs)"

text \<open>The mapping of one payload element; \<open>None\<close> when it throws (the element is not an
  object, or its date is invalid so that \<open>toISOString\<close> raises a \<open>RangeError\<close>).\<close>

definition convert_sms :: "env \<Rightarrow> raw_sms option \<Rightarrow> SmsMessage option" where
  "convert_sms E msg =
     (case msg of
        None \<Rightarrow> None
      | Some m \<Rightarrow>
          (case toISOString E (raw_date m) of
             None \<Rightarrow> None
           | Some d \<Rightarrow>
               Some \<lparr>address = or_empty (raw_address m), body = or_empty (raw_body m),
                     date = d\<rparr>))"

fun convert_all :: "env \<Rightarrow> raw_sms option list \<Rightarrow> SmsMessage list option" where
  "convert_all E [] = Some []"
| "convert_all E (m # ms) =
     (case convert_sms E m of
        None \<Rightarrow> None
      | Some c \<Rightarrow> (case convert_all E ms of None \<Rightarrow> None | Some cs \<Rightarrow> Some (c # cs)))"

text \<open>
  \<open>loadSmsFromDevice\<close>: the window handed to the bridge is computed from the clock
  (thirty days back from now, until now); every failure answers the empty list.
\<close>

definition loadSmsFromDevice :: "env \<Rightarrow> int \<Rightarrow> SmsMessage list \<times> event list" where
  "loadSmsFromDevice E limit =
     (case readSMS E of
        None \<Rightarrow> ([], [])
      | Some bridge \<Rightarrow>
          (let fromDate = minus_days E (now_first E) 30;
               toDate = now_second E
           in (case bridge fromDate toDate of
                 Rejected e \<Rightarrow> []
               | Unparsable \<Rightarrow> []
               | NotArray \<Rightarrow> []
               | Messages messages \<Rightarrow>
                   (case convert_all E (slice0 messages limit) of
                      None \<Rightarrow> []
                    | Some ms \<Rightarrow> ms),
               [ReadSMS fromDate toDate])))"

record scan_state =
  transactions :: "Transaction list"
  processedCount :: nat
  skippedCount :: nat
  rng :: nat
  events :: "event list"

definition skip :: "scan_state \<Rightarrow> scan_state" where
  "skip st = st\<lparr>skippedCount := skippedCount st + 1\<rparr>"

text \<open>
  The \<open>try\<close> block of the loop of \<open>scanSms\<close> for one message, on the loop's variables:
  the exception that leaves the block, if any, and the variables at that point.
  Exceptions come from \<open>createTransactionFromSms\<close> (the enrichment lookup) and from the
  event bus.
\<close>

definition try_message ::
  "env \<Rightarrow> SmsParserRule list \<Rightarrow> nat \<Rightarrow> SmsMessage \<Rightarrow> scan_state \<Rightarrow>
     error option \<times> scan_state" where
  "try_message E rules n message st =
     (case extractExpenseFromText E (body message) (address message) rules of
        (result, ws) \<Rightarrow>
          (let st1 = st\<lparr>events := events st @ map UpdateRule ws\<rparr>
           in case (amount result, resultType result) of
                (None, ty) \<Rightarrow> (None, skip st1)
              | (Some a, None) \<Rightarrow> (None, skip st1)
              | (Some a, Some ty) \<Rightarrow>
                  (if \<not> truthy_num a then (None, skip st1)
                   else
                     (let smsData = \<lparr>sms_body = body message, sms_date = date message,
                                       sms_amount = a, sms_merchantName = merchantName result,
                                       sms_sender = Some (address message)\<rparr>;
                          bank = (case usedRule result of
                                    None \<Rightarrow> ''Other Bank''
                                  | Some r \<Rightarrow> (if paymentBank r = [] then ''Other Bank''
                                              else paymentBank r))
                      in case createTransactionFromSms E smsData bank ty (rng st1) of
                           (Inl e, k1) \<Rightarrow> (Some e, st1\<lparr>rng := k1\<rparr>)
                         | (Inr transaction, k1) \<Rightarrow>
                             (case isTransactionDuplicate E smsData (Some (tx_id transaction)) k1 of
                                (True, k2) \<Rightarrow> (None, skip (st1\<lparr>rng := k2\<rparr>))
                              | (False, k2) \<Rightarrow>
                                  (let st2 = st1\<lparr>transactions := transactions st1 @ [transaction],
                                                  processedCount := processedCount st1 + 1,
                                                  rng := k2\<rparr>;
                                       p = \<lparr>pr_total = n,
                                            pr_processed = processedCount st2 + skippedCount st2,
                                            pr_success = processedCount st2,
                                            pr_skipped = skippedCount st2\<rparr>
                                   in case emit E p of
                                        Some e \<Rightarrow> (Some e, st2)
                                      | None \<Rightarrow>
                                          (None, st2\<lparr>events := events st2 @ [Emitted p]\<rparr>)))))))"

text \<open>The loop body: the \<open>try\<close> block, and the \<open>catch\<close> that logs the exception and
  counts the message as skipped.\<close>

definition process_message ::
  "env \<Rightarrow> SmsParserRule list \<Rightarrow> nat \<Rightarrow> SmsMessage \<Rightarrow> scan_state \<Rightarrow> scan_state" where
  "process_message E rules n message st =
     (case try_message E rules n message st of
        (None, st') \<Rightarrow> st'
      | (Some e, st') \<Rightarrow> skip st')"

fun scan_messages ::
  "env \<Rightarrow> SmsParserRule list \<Rightarrow> nat \<Rightarrow> SmsMessage list \<Rightarrow> scan_state \<Rightarrow> scan_state" where
  "scan_messages E rules n [] st = st"
| "scan_messages E rules n (m # ms) st =
     scan_messages E rules n ms (process_message E rules n m st)"

definition finish :: "scan_state \<Rightarrow> event list \<Rightarrow> scan_state" where
  "finish st evs = st\<lparr>events := events st @ evs\<rparr>"

text \<open>
  \<open>scanSms(fromDate, toDate)\<close>. The result is the loop's final variables; the list the
  function returns is \<open>transactions\<close>. \<open>k\<close> is the state of the random source.
\<close>

definition scanSms :: "env \<Rightarrow> int option \<Rightarrow> int option \<Rightarrow> nat \<Rightarrow> scan_state" where
  "scanSms E fromDate toDate k =
     (case loadSmsFromDevice E 100 of
        (messages, evs) \<Rightarrow>
          (let st0 = \<lparr>transactions = [], processedCount = 0, skippedCount = 0, rng = k,
                      events = evs\<rparr>
           in if messages = [] then finish st0 [ToastError ''No SMS messages found'']
              else (case getSmsParserRules E of
                      Inl e \<Rightarrow> finish st0 [LoadRules, ToastError ''Error scanning SMS'']
                    | Inr rules \<Rightarrow>
                        (if rules = []
                         then finish st0 [LoadRules, ToastError ''No SMS parser rules found'']
                         else (let st = scan_messages E rules (length messages) messages
                                          (finish st0 [LoadRules])
                               in if transactions st \<noteq> []
                                  then finish st [Toast ''SMS Scan Complete'']
                                  else finish st [ToastError ''No new transactions found''])))))"



section \<open>A concrete environment for the worked examples\<close>

text \<open>
  The examples run the pipeline on a small environment: a regex engine that knows the
  invalid pattern \<open>([0-9]+\<close>, the pattern \<open>INR ([0-9,.-]+)\<close> (case-insensitive, leftmost
  match, greedy class) and the alternation \<open>otp|pin\<close> (no capture group), \<open>parseFloat\<close> on decimal notation, an identity date formatter, a
  random source whose draws are pairwise different, a clock and a bridge.
\<close>

definition amount_char :: "char \<Rightarrow> bool" where
  "amount_char c = (c \<in> set ''0123456789,.-'')"

fun capture_after :: "string \<Rightarrow> string \<Rightarrow> string option" where
  "capture_after lit [] = None"
| "capture_after lit (c # t) =
     (if startsWith (toLowerCase (c # t)) lit \<and>
         takeWhile amount_char (drop (length lit) (c # t)) \<noteq> []
      then Some (takeWhile amount_char (drop (length lit) (c # t)))
      else capture_after lit t)"

definition demo_regex :: "string \<Rightarrow> string \<Rightarrow> string \<Rightarrow> regex_result" where
  "demo_regex p flags subject =
     (if p = ''([0-9]+'' then SyntaxError
      else if p = ''INR ([0-9,.-]+)'' then
        (case capture_after ''inr '' subject of None \<Rightarrow> NoMatch | Some g \<Rightarrow> Match (Some g))
      else if p = ''otp|pin'' then
        (if str_includes (toLowerCase subject) ''otp'' \<or> str_includes (toLowerCase subject) ''pin''
         then Match None else NoMatch)
      else NoMatch)"

definition is_digit :: "char \<Rightarrow> bool" where
  "is_digit c = (let n = (of_char c :: nat) in 48 \<le> n \<and> n \<le> 57)"

definition digits_value :: "string \<Rightarrow> nat" where
  "digits_value ds = foldl (\<lambda>a c. 10 * a + (of_char c - 48)) 0 ds"

definition demo_parseFloat :: "string \<Rightarrow> jsnum" where
  "demo_parseFloat s =
     (let t = dropWhile is_ws s;
          neg = startsWith t ''-'';
          u = (if neg \<or> startsWith t ''+'' then drop 1 t else t);
          ip = takeWhile is_digit u;
          r = dropWhile is_digit u;
          fp = (if startsWith r ''.'' then takeWhile is_digit (drop 1 r) else [])
      in if ip = [] \<and> fp = [] then NaN
         else Fin ((if neg then - 1 else 1) *
                   (real (digits_value ip) + real (digits_value fp) / 10 ^ length fp)))"

definition demo_uuid :: "nat \<Rightarrow> string" where
  "demo_uuid k = ''uuid-'' @ replicate k (CHR ''x'')"

definition debit_rule :: SmsParserRule where
  "debit_rule =
     \<lparr>rule_id = Some ''r1'', name = ''Bank debit'', enabled = True, paymentBank = ''HDFC'',
      priority = 10, transactionType = Expense, senderMatch = Str ''HDFC'',
      amountRegex = Str ''INR ([0-9,.-]+)'', merchantExtractions = None,
      merchantCommonPatterns = None, skipCondition = None, merchantCondition = None,
      successCount = None, lastError = None\<rparr>"

definition debit_sms :: raw_sms where
  "debit_sms = \<lparr>raw_address = Some ''VM-HDFCBK'',
                 raw_body = Some ''INR 250.00 debited at COFFEE SHOP'',
                 raw_date = ''2024-01-05T10:00:00.000Z''\<rparr>"

definition demo_env :: env where
  "demo_env =
     \<lparr>regex_exec = demo_regex,
      parseFloat = demo_parseFloat,
      tryMerchantExtractions = (\<lambda>text xs. Inr []),
      getPreviousTransactionData = (\<lambda>m. Inr \<lparr>enr_category = None, enr_notes = None\<rparr>),
      toISOString = (\<lambda>d. if d = [] then None else Some d),
      uuid_at = demo_uuid,
      number_toString = (\<lambda>n. ''n''),
      sha256_hex = (\<lambda>s. s),
      emit = (\<lambda>p. None),
      now_first = 1704448800000,
      now_second = 1704448800000,
      minus_days = (\<lambda>t d. t - d * 86400000),
      readSMS = Some (\<lambda>fromDate toDate. Messages [Some debit_sms]),
      getSmsParserRules = Inr [debit_rule],
      getTransactions = Inr []\<rparr>"

definition coffee_fields :: ProcessedSmsMessage where
  "coffee_fields =
     \<lparr>sms_body = ''INR 250.00 debited at COFFEE SHOP'',
      sms_date = ''2024-01-05T10:00:00.000Z'', sms_amount = Fin 250,
      sms_merchantName = ''Unknown Merchant'', sms_sender = Some ''VM-HDFCBK''\<rparr>"

definition low_priority_rule :: SmsParserRule where
  "low_priority_rule =
     debit_rule\<lparr>rule_id := Some ''r2'', name := ''Catch-all'', priority := 5,
                paymentBank := ''Other''\<rparr>"

definition twice_env :: env where
  "twice_env =
     demo_env\<lparr>readSMS := Some (\<lambda>fromDate toDate. Messages [Some debit_sms, Some debit_sms])\<rparr>"

text \<open>What a scan reports: the identifiers accepted, and the two counters.\<close>

definition scan_summary :: "scan_state \<Rightarrow> string list \<times> nat \<times> nat" where
  "scan_summary st = (map tx_id (transactions st), processedCount st, skippedCount st)"







definition merchant_rule :: SmsParserRule where
  "merchant_rule =
     debit_rule\<lparr>merchantExtractions :=
       Some [\<lparr>startText = Some ''at '', endText = None, startIndex = None\<rparr>]\<rparr>"

definition bad_regex_rule :: SmsParserRule where
  "bad_regex_rule =
     debit_rule\<lparr>rule_id := Some ''r0'', name := ''Broken'', amountRegex := Str ''([0-9]+''\<rparr>"

definition cafe_message :: SmsMessage where
  "cafe_message = \<lparr>address = ''VM-HDFCBK'', body = ''INR 80.00 debited at CAFE'',
                    date = ''2024-01-04T09:00:00.000Z''\<rparr>"

definition coffee_message :: SmsMessage where
  "coffee_message = \<lparr>address = ''VM-HDFCBK'', body = ''INR 250.00 debited at COFFEE SHOP'',
                      date = ''2024-01-05T10:00:00.000Z''\<rparr>"

text \<open>An environment whose enrichment lookup fails for the merchant \<open>CAFE\<close>.\<close>

definition failing_lookup_env :: env where
  "failing_lookup_env =
     demo_env\<lparr>tryMerchantExtractions :=
                (\<lambda>text xs. Inr (if str_includes text ''CAFE'' then ''CAFE'' else ''COFFEE SHOP'')),
              getPreviousTransactionData :=
                (\<lambda>m. if m = ''CAFE'' then Inl (Error ''lookup failed'')
                      else Inr \<lparr>enr_category = None, enr_notes = None\<rparr>)\<rparr>"

definition start_state :: scan_state where
  "start_state = \<lparr>transactions = [], processedCount = 0, skippedCount = 0, rng = 0,
                   events = []\<rparr>"

section \<open>Identity generation\<close>

lemma generateId_is_draw: "generateDeterministicTransactionId E flds k = uuidv4 E k"
  by (simp add: generateDeterministicTransactionId_def Let_def)

text \<open>The SHA-256 variant of \<open>sms-transaction-processor\<close> is a function of the five
  fields; the scanner does not import it.\<close>

lemma sha_id_determined:
  "sms_date f = sms_date g \<Longrightarrow> sms_amount f = sms_amount g \<Longrightarrow>
   sms_merchantName f = sms_merchantName g \<Longrightarrow> sms_sender f = sms_sender g \<Longrightarrow>
   sms_body f = sms_body g \<Longrightarrow>
   generateDeterministicTransactionId_sha E f = generateDeterministicTransactionId_sha E g"
  by (simp add: generateDeterministicTransactionId_sha_def)

text \<open>
  C1. The claim: for a fixed \<open>(date, amount, merchantName, sender, body)\<close> every call of
  \<open>generateDeterministicTransactionId\<close> returns the same identifier. The function the
  scanner uses returns \<open>uuidv4()\<close> (its comment: "For now, using random UUID. TODO:
  Implement UUID v5"), so two calls on the same fields return the first and the second
  draw of the random source: here \<open>uuid-\<close> and \<open>uuid-x\<close>.
\<close>

theorem C1_two_calls_two_ids:
  "fst (generateDeterministicTransactionId demo_env coffee_fields 0) = ''uuid-'' \<and>
   fst (generateDeterministicTransactionId demo_env coffee_fields
          (snd (generateDeterministicTransactionId demo_env coffee_fields 0))) = ''uuid-x''"
  by code_simp

section \<open>Duplicate detection in a scan\<close>


section \<open>Rule order\<close>

text \<open>
  C3. The claim: of two enabled rules of one group that both match, the one with the
  strictly higher priority is the \<open>usedRule\<close>. \<open>extractExpenseFromText\<close> never reads
  \<open>priority\<close>: it tries the rules in the order of the list it is given (the sibling
  \<open>testSmsWithRules\<close> sorts by priority first). With the priority-5 rule listed before the
  priority-10 rule, both matching, the priority-5 rule is used.
\<close>

theorem C3_lower_priority_rule_first_in_list_wins:
  "priority low_priority_rule < priority debit_rule \<and>
   map (\<lambda>rules. usedRule (fst (extractExpenseFromText demo_env
          ''INR 250.00 debited at COFFEE SHOP'' ''VM-HDFCBK'' rules)))
     [[debit_rule], [low_priority_rule], [low_priority_rule, debit_rule]] =
     [Some debit_rule, Some low_priority_rule, Some low_priority_rule]"
  by code_simp

section \<open>The window of the scan\<close>

lemma scanSms_ignores_range: "scanSms E fromDate toDate k = scanSms E fromDate' toDate' k"
  by (simp add: scanSms_def)

text \<open>
  C7. The claim: the bridge is queried with exactly the window \<open>fromDate\<close>, \<open>toDate\<close> of
  the scan request. \<open>scanSms\<close> accepts the two dates and calls \<open>loadSmsFromDevice()\<close>
  without them; the loader asks the bridge for the thirty days before now. A scan
  requested for January 2023, run on 5 January 2024, reads 6 December 2023 to 5 January
  2024.
\<close>

theorem C7_bridge_window_is_last_thirty_days:
  "take 1 (events (scanSms demo_env (Some 1672531200000) (Some 1675209600000) 0)) =
     [ReadSMS 1701856800000 1704448800000]"
  by code_simp

section \<open>The message loader and the loop of the scan\<close>

lemma convert_all_length: "convert_all E xs = Some ys \<Longrightarrow> length ys = length xs"
  by (induction xs arbitrary: ys) (auto split: option.splits)

lemma slice0_nonneg: "0 \<le> limit \<Longrightarrow> slice0 xs limit = take (nat limit) xs"
  by (simp add: slice0_def)

lemma loadSms_eq:
  "fst (loadSmsFromDevice E limit) =
     (case readSMS E of
        None \<Rightarrow> []
      | Some bridge \<Rightarrow>
          (case bridge (minus_days E (now_first E) 30) (now_second E) of
             Messages raw \<Rightarrow>
               (case convert_all E (slice0 raw limit) of None \<Rightarrow> [] | Some ms \<Rightarrow> ms)
           | _ \<Rightarrow> []))"
  by (simp add: loadSmsFromDevice_def Let_def split: option.splits sms_payload.splits)

lemma loadSms_length: "0 \<le> limit \<Longrightarrow> length (fst (loadSmsFromDevice E limit)) \<le> nat limit"
  by (auto simp: loadSms_eq slice0_nonneg dest!: convert_all_length
      split: option.splits sms_payload.splits)

lemma skip_fields [simp]:
  "transactions (skip st) = transactions st"
  "processedCount (skip st) = processedCount st"
  "skippedCount (skip st) = skippedCount st + 1"
  "rng (skip st) = rng st"
  "events (skip st) = events st"
  by (simp_all add: skip_def)

lemma finish_fields [simp]:
  "transactions (finish st evs) = transactions st"
  "processedCount (finish st evs) = processedCount st"
  "skippedCount (finish st evs) = skippedCount st"
  "rng (finish st evs) = rng st"
  "events (finish st evs) = events st @ evs"
  by (simp_all add: finish_def)

lemma process_message_transactions:
  "transactions (process_message E rules n m st) = transactions st \<or>
   (\<exists>t. transactions (process_message E rules n m st) = transactions st @ [t])"
  by (auto simp: process_message_def try_message_def Let_def
      split: prod.splits option.splits sum.splits bool.splits)

lemma process_message_length:
  "length (transactions (process_message E rules n m st)) \<le> Suc (length (transactions st))"
  using process_message_transactions [of E rules n m st] by auto

lemma scan_messages_length:
  "length (transactions (scan_messages E rules n ms st)) \<le> length (transactions st) + length ms"
proof (induction ms arbitrary: st)
  case Nil
  show ?case by simp
next
  case (Cons m ms)
  have "length (transactions (scan_messages E rules n ms (process_message E rules n m st)))
        \<le> length (transactions (process_message E rules n m st)) + length ms"
    by (rule Cons.IH)
  also have "\<dots> \<le> Suc (length (transactions st)) + length ms"
    using process_message_length [of E rules n m st] by simp
  finally show ?case by simp
qed

lemma scanSms_transactions_bound:
  "length (transactions (scanSms E fromDate toDate k)) \<le> length (fst (loadSmsFromDevice E 100))"
proof (cases "loadSmsFromDevice E 100")
  case (Pair messages evs)
  show ?thesis
    using scan_messages_length [of E _ "length messages" messages]
    by (auto simp: scanSms_def Pair Let_def split: sum.splits
        intro: order_trans [OF scan_messages_length])
qed

text \<open>
  C10. \<open>loadSmsFromDevice\<close> cuts the parsed array to its \<open>limit\<close> (default 100) before it
  maps the elements: the result has at most \<open>limit\<close> messages and is the conversion of the
  first \<open>limit\<close> elements of the payload (the empty list when one of those fails to
  convert), and a scan, which calls the loader with the default, accepts at most 100
  transactions.
\<close>

theorem C10_loader_caps_at_limit:
  "length (fst (loadSmsFromDevice E 100)) \<le> 100 \<and>
   (0 \<le> limit \<longrightarrow>
      length (fst (loadSmsFromDevice E limit)) \<le> nat limit \<and>
      (readSMS E = Some bridge \<and>
       bridge (minus_days E (now_first E) 30) (now_second E) = Messages raw \<longrightarrow>
         fst (loadSmsFromDevice E limit) =
           (case convert_all E (take (nat limit) raw) of None \<Rightarrow> [] | Some ms \<Rightarrow> ms))) \<and>
   length (transactions (scanSms E fromDate toDate k)) \<le> 100"
proof -
  have a: "length (fst (loadSmsFromDevice E 100)) \<le> 100"
    using loadSms_length [of 100 E] by simp
  have b: "length (transactions (scanSms E fromDate toDate k)) \<le> 100"
    using scanSms_transactions_bound [of E fromDate toDate k] a by linarith
  have c: "length (fst (loadSmsFromDevice E limit)) \<le> nat limit" if "0 \<le> limit"
    using that by (rule loadSms_length)
  have d: "fst (loadSmsFromDevice E limit) =
           (case convert_all E (take (nat limit) raw) of None \<Rightarrow> [] | Some ms \<Rightarrow> ms)"
    if "0 \<le> limit" "readSMS E = Some bridge"
       "bridge (minus_days E (now_first E) 30) (now_second E) = Messages raw"
    using that by (simp add: loadSms_eq slice0_nonneg)
  show ?thesis
    using a b c d by blast
qed

text \<open>With the same message twice in the payload and a limit of 1, the loader returns
  the conversion of the first element only.\<close>

theorem C10_loader_caps_at_limit_witness:
  "(0::int) \<le> 1 \<and>
   readSMS twice_env = Some (\<lambda>fromDate toDate. Messages [Some debit_sms, Some debit_sms]) \<and>
   length (fst (loadSmsFromDevice twice_env 1)) \<le> nat 1 \<and>
   fst (loadSmsFromDevice twice_env 1) =
     (case convert_all twice_env (take (nat 1) [Some debit_sms, Some debit_sms]) of
        None \<Rightarrow> [] | Some ms \<Rightarrow> ms) \<and>
   length (fst (loadSmsFromDevice twice_env 100)) \<le> 100 \<and>
   length (transactions (scanSms twice_env None None 0)) \<le> 100"
proof -
  let ?b = "\<lambda>(fromDate::int) (toDate::int). Messages [Some debit_sms, Some debit_sms]"
  have h: "readSMS twice_env = Some ?b"
    by (simp add: twice_env_def demo_env_def)
  have z: "(0::int) \<le> 1"
    by simp
  note t = C10_loader_caps_at_limit
             [of twice_env 1 ?b "[Some debit_sms, Some debit_sms]" None None 0]
  from t z h show ?thesis
    by blast
qed

section \<open>No enabled rule\<close>

lemma truthy_no_match [simp]: "\<not> truthy_amount (amount no_match)"
  by (simp add: no_match_def)











section \<open>The rule loop\<close>


lemma try_each_Cons_None:
  "try_rule E text sender q = (None, ws) \<Longrightarrow>
   fst (try_each E text sender (q # rs)) = fst (try_each E text sender rs)"
  by (cases "try_each E text sender rs") simp

lemma try_each_Cons_Some:
  "try_rule E text sender q = (Some res, ws) \<Longrightarrow> fst (try_each E text sender (q # rs)) = res"
  by simp

text \<open>The loop returns at the first rule of the list that produces a result; priorities
  play no part.\<close>

lemma try_each_first:
  "list_all (\<lambda>q. fst (try_rule E text sender q) = None) pre \<Longrightarrow>
   fst (try_rule E text sender r) = Some res \<Longrightarrow>
   fst (try_each E text sender (pre @ r # post)) = res"
proof (induction pre)
  case Nil
  then obtain ws where "try_rule E text sender r = (Some res, ws)"
    by (cases "try_rule E text sender r") simp
  then have "fst (try_each E text sender (r # post)) = res"
    by (rule try_each_Cons_Some)
  then show ?case
    by (simp only: append_Nil)
next
  case (Cons q pre)
  then have "fst (try_rule E text sender q) = None"
    by simp
  then obtain ws where "try_rule E text sender q = (None, ws)"
    by (cases "try_rule E text sender q") simp
  then have "fst (try_each E text sender (q # pre @ r # post)) =
             fst (try_each E text sender (pre @ r # post))"
    by (rule try_each_Cons_None)
  moreover have "fst (try_each E text sender (pre @ r # post)) = res"
    using Cons by simp
  ultimately show ?case
    by (simp only: append_Cons)
qed








section \<open>Group precedence\<close>



section \<open>The amount of a matching rule\<close>









section \<open>Skip conditions\<close>

lemma startsWith_iff: "startsWith t p \<longleftrightarrow> (\<exists>b. t = p @ b)"
  by (induction t p rule: startsWith.induct) auto

lemma str_includes_iff: "str_includes t p \<longleftrightarrow> (\<exists>a b. t = a @ p @ b)"
proof (induction t)
  case Nil
  show ?case by (simp add: startsWith_iff)
next
  case (Cons d t)
  have "(\<exists>a b. d # t = a @ p @ b) \<longleftrightarrow> (\<exists>b. d # t = p @ b) \<or> (\<exists>a b. t = a @ p @ b)"
  proof
    assume "\<exists>a b. d # t = a @ p @ b"
    then obtain a b where ab: "d # t = a @ p @ b" by blast
    show "(\<exists>b. d # t = p @ b) \<or> (\<exists>a b. t = a @ p @ b)"
    proof (cases a)
      case Nil
      then show ?thesis using ab by auto
    next
      case (Cons x a')
      then have "t = a' @ p @ b" using ab by simp
      then show ?thesis by blast
    qed
  next
    assume "(\<exists>b. d # t = p @ b) \<or> (\<exists>a b. t = a @ p @ b)"
    then show "\<exists>a b. d # t = a @ p @ b"
    proof
      assume "\<exists>b. d # t = p @ b"
      then obtain b where "d # t = [] @ p @ b" by auto
      then show ?thesis by blast
    next
      assume "\<exists>a b. t = a @ p @ b"
      then obtain a b where "d # t = (d # a) @ p @ b" by auto
      then show ?thesis by blast
    qed
  qed
  then show ?case
    using Cons.IH by (simp add: startsWith_iff)
qed










section \<open>Exceptions during the scan\<close>

lemma scan_messages_append:
  "scan_messages E rules n (xs @ ys) st = scan_messages E rules n ys (scan_messages E rules n xs st)"
  by (induction xs arbitrary: st) simp_all

lemma try_message_throw_skipped:
  "fst (try_message E rules n m s) = Some e \<Longrightarrow>
   skippedCount (snd (try_message E rules n m s)) = skippedCount s"
  by (auto simp: try_message_def Let_def
      split: prod.splits option.splits sum.splits bool.splits if_splits)

lemma process_message_throw:
  assumes "fst (try_message E rules n m s) = Some e"
  shows "process_message E rules n m s = skip (snd (try_message E rules n m s))"
  using assms by (cases "try_message E rules n m s") (simp add: process_message_def)

lemma process_message_counts:
  "processedCount st + skippedCount st + 1 \<le>
   processedCount (process_message E rules n m st) + skippedCount (process_message E rules n m st)"
  by (auto simp: process_message_def try_message_def Let_def
      split: prod.splits option.splits sum.splits bool.splits)

lemma scan_messages_counts:
  "processedCount st + skippedCount st + length ms \<le>
   processedCount (scan_messages E rules n ms st) + skippedCount (scan_messages E rules n ms st)"
proof (induction ms arbitrary: st)
  case Nil
  show ?case by simp
next
  case (Cons m ms)
  have "processedCount st + skippedCount st + length (m # ms) \<le>
        processedCount (process_message E rules n m st) +
        skippedCount (process_message E rules n m st) + length ms"
    using process_message_counts [of st E rules n m] by simp
  also have "\<dots> \<le> processedCount (scan_messages E rules n ms (process_message E rules n m st)) +
                  skippedCount (scan_messages E rules n ms (process_message E rules n m st))"
    by (rule Cons.IH)
  finally show ?case by simp
qed

lemma extract_amount_invalid:
  "regex_exec E p ''i'' text = SyntaxError \<Longrightarrow>
   extract_amount E text (p # ps) acc = extract_amount E text ps acc"
  by simp

lemma extract_amount_all_invalid:
  "list_all (\<lambda>p. regex_exec E p ''i'' text = SyntaxError) ps \<Longrightarrow>
   extract_amount E text ps acc = acc"
  by (induction ps) simp_all

lemma try_rule_all_invalid:
  "list_all (\<lambda>p. regex_exec E p ''i'' text = SyntaxError) (to_array (amountRegex r)) \<Longrightarrow>
   try_rule E text sender r = (None, [])"
  by (simp add: try_rule_def extract_amount_all_invalid)

lemma tryRules_Cons_invalid:
  assumes "list_all (\<lambda>p. regex_exec E p ''i'' text = SyntaxError) (to_array (amountRegex bad))"
    and "\<not> rule_skip_hits E text bad"
  shows "tryRules E text sender (bad # rs) = tryRules E text sender rs"
proof -
  have g: "global_skip E text (bad # rs) = global_skip E text rs"
    using assms(2) by (simp add: global_skip_def)
  have "try_each E text sender (bad # rs) = try_each E text sender rs"
    using try_rule_all_invalid [OF assms(1), of sender] by simp
  then show ?thesis
    by (simp only: tryRules_def g)
qed

text \<open>
  C6. An exception that leaves the \<open>try\<close> block of one message is caught: the message
  is counted as skipped and the loop goes on with the messages after it. Every message
  of the list is counted as processed or as skipped, so the loop runs to the end of the
  list. An amount pattern that is not a valid regex is passed over like a pattern that
  does not match, and a rule all of whose amount patterns are invalid leaves the result
  to the rules after it.
\<close>

theorem C6_exception_is_caught_and_scan_continues:
  "(fst (try_message E rules n m (scan_messages E rules n ms1 st)) = Some e \<longrightarrow>
      skippedCount (process_message E rules n m (scan_messages E rules n ms1 st)) =
        skippedCount (scan_messages E rules n ms1 st) + 1 \<and>
      scan_messages E rules n (ms1 @ m # ms2) st =
        scan_messages E rules n ms2
          (skip (snd (try_message E rules n m (scan_messages E rules n ms1 st))))) \<and>
   processedCount st + skippedCount st + length ms \<le>
     processedCount (scan_messages E rules n ms st) + skippedCount (scan_messages E rules n ms st) \<and>
   (regex_exec E p ''i'' text = SyntaxError \<longrightarrow>
      extract_amount E text (p # ps) acc = extract_amount E text ps acc) \<and>
   (list_all (\<lambda>p. regex_exec E p ''i'' text = SyntaxError) (to_array (amountRegex bad)) \<and>
    \<not> rule_skip_hits E text bad \<longrightarrow>
      tryRules E text sender (bad # rs) = tryRules E text sender rs)"
proof -
  let ?s = "scan_messages E rules n ms1 st"
  have a: "skippedCount (process_message E rules n m ?s) = skippedCount ?s + 1"
    if "fst (try_message E rules n m ?s) = Some e"
    using that by (simp add: process_message_throw try_message_throw_skipped)
  have b: "scan_messages E rules n (ms1 @ m # ms2) st =
           scan_messages E rules n ms2 (skip (snd (try_message E rules n m ?s)))"
    if "fst (try_message E rules n m ?s) = Some e"
    using that by (simp add: scan_messages_append process_message_throw)
  show ?thesis
    using a b scan_messages_counts [of st ms E rules n] extract_amount_invalid [of E p "text" ps acc]
      tryRules_Cons_invalid [of E "text" bad sender rs]
    by blast
qed

text \<open>An instance: the enrichment lookup fails for the first of two messages; it is
  counted as skipped and the second is accepted. The first rule of the list has the
  invalid amount pattern \<open>([0-9]+\<close>, and the rule after it matches.\<close>

theorem C6_exception_is_caught_and_scan_continues_witness:
  "fst (try_message failing_lookup_env [bad_regex_rule, merchant_rule] 2 cafe_message
          (scan_messages failing_lookup_env [bad_regex_rule, merchant_rule] 2 [] start_state)) =
     Some (Error ''lookup failed'') \<and>
   skippedCount (process_message failing_lookup_env [bad_regex_rule, merchant_rule] 2 cafe_message
          (scan_messages failing_lookup_env [bad_regex_rule, merchant_rule] 2 [] start_state)) =
     skippedCount (scan_messages failing_lookup_env [bad_regex_rule, merchant_rule] 2 []
          start_state) + 1 \<and>
   scan_messages failing_lookup_env [bad_regex_rule, merchant_rule] 2
       ([] @ cafe_message # [coffee_message]) start_state =
     scan_messages failing_lookup_env [bad_regex_rule, merchant_rule] 2 [coffee_message]
       (skip (snd (try_message failing_lookup_env [bad_regex_rule, merchant_rule] 2 cafe_message
          (scan_messages failing_lookup_env [bad_regex_rule, merchant_rule] 2 [] start_state)))) \<and>
   scan_summary (scan_messages failing_lookup_env [bad_regex_rule, merchant_rule] 2
       [cafe_message, coffee_message] start_state) = ([''uuid-x''], 1, 1) \<and>
   regex_exec failing_lookup_env ''([0-9]+'' ''i'' ''INR 250.00 debited at COFFEE SHOP'' =
     SyntaxError \<and>
   list_all (\<lambda>p. regex_exec failing_lookup_env p ''i'' ''INR 250.00 debited at COFFEE SHOP'' =
       SyntaxError) (to_array (amountRegex bad_regex_rule)) \<and>
   \<not> rule_skip_hits failing_lookup_env ''INR 250.00 debited at COFFEE SHOP'' bad_regex_rule \<and>
   tryRules failing_lookup_env ''INR 250.00 debited at COFFEE SHOP'' ''VM-HDFCBK''
       (bad_regex_rule # [merchant_rule]) =
     tryRules failing_lookup_env ''INR 250.00 debited at COFFEE SHOP'' ''VM-HDFCBK''
       [merchant_rule] \<and>
   usedRule (fst (tryRules failing_lookup_env ''INR 250.00 debited at COFFEE SHOP''
       ''VM-HDFCBK'' [bad_regex_rule, merchant_rule])) = Some merchant_rule"
proof -
  have h1: "fst (try_message failing_lookup_env [bad_regex_rule, merchant_rule] 2 cafe_message
          (scan_messages failing_lookup_env [bad_regex_rule, merchant_rule] 2 [] start_state)) =
     Some (Error ''lookup failed'')"
    by code_simp
  have h2: "scan_summary (scan_messages failing_lookup_env [bad_regex_rule, merchant_rule] 2
       [cafe_message, coffee_message] start_state) = ([''uuid-x''], 1, 1)"
    by code_simp
  have h3: "regex_exec failing_lookup_env ''([0-9]+'' ''i'' ''INR 250.00 debited at COFFEE SHOP'' =
       SyntaxError \<and>
     list_all (\<lambda>p. regex_exec failing_lookup_env p ''i'' ''INR 250.00 debited at COFFEE SHOP'' =
       SyntaxError) (to_array (amountRegex bad_regex_rule)) \<and>
     \<not> rule_skip_hits failing_lookup_env ''INR 250.00 debited at COFFEE SHOP'' bad_regex_rule \<and>
     usedRule (fst (tryRules failing_lookup_env ''INR 250.00 debited at COFFEE SHOP''
       ''VM-HDFCBK'' [bad_regex_rule, merchant_rule])) = Some merchant_rule"
    by code_simp
  from C6_exception_is_caught_and_scan_continues
    [of failing_lookup_env "[bad_regex_rule, merchant_rule]" 2 cafe_message "[]" start_state
        "Error ''lookup failed''" "[coffee_message]" "[]" "''([0-9]+''"
        "''INR 250.00 debited at COFFEE SHOP''" "[]" None bad_regex_rule "''VM-HDFCBK''"
        "[merchant_rule]"]
    h1 h2 h3
  show ?thesis
    by blast
qed

end
